theory Spec2Isabelle
  imports Complex_Main "HOL-Library.Word"
begin

section \<open>AD2\_ELEX\_with\_demo.py: the device facade and the voltage sweep\<close>

text \<open>
  The script drives a Digilent Analog Discovery 2 through the vendor library \<open>dwf\<close>.
  The library is closed: the model records every call made to it, with its arguments, in
  the order the script makes it, and takes what the library hands back (the handle, the
  measured voltages, the status bytes, the record buffer) and what \<open>time.time()\<close>
  returns from an \<open>environment\<close> that is a parameter of every function.

  A Python float is modelled by the real number it holds, and an operation on floats
  rounds the exact result to the nearest double (\<open>to_double\<close> below); Python integers
  are \<open>int\<close>; \<open>ctypes.c_int\<close> is a 32-bit word (ctypes does not check for overflow,
  the value wraps); \<open>ctypes.c_double\<close> of a float is the float itself.
\<close>

subsection \<open>Python floats\<close>

text \<open>
  A double has a significand of 53 bits. \<open>to_double\<close> rounds a real number to the
  nearest such value, ties to the even significand, as IEEE 754 does for every
  arithmetic operation and as Python does for a decimal literal. The exponent is not
  bounded: overflow, subnormal numbers, infinities and NaN are outside the model.
  \<open>expo x\<close> is the binary exponent of \<open>x\<close>, and \<open>ulp x\<close> the distance between
  neighbouring doubles of that exponent.
\<close>

definition round_even :: "real \<Rightarrow> int" where
  "round_even m =
     (let f = \<lfloor>m\<rfloor>; r = m - of_int f
      in if r < 1 / 2 then f else if 1 / 2 < r then f + 1 else if even f then f else f + 1)"

definition expo :: "real \<Rightarrow> int" where
  "expo x = \<lfloor>log 2 \<bar>x\<bar>\<rfloor>"

definition ulp :: "real \<Rightarrow> real" where
  "ulp x = 2 powr (of_int (expo x) - 52)"

definition to_double :: "real \<Rightarrow> real" where
  "to_double x = (if x = 0 then 0 else of_int (round_even (x / ulp x)) * ulp x)"

text \<open>
  A float literal, and \<open>+\<close>, \<open>-\<close> and \<open>/\<close> with a float operand (an int operand is
  converted first; the ints of the script are small and convert exactly). The division
  is used where the divisor is not zero; the callers raise \<open>ZeroDivisionError\<close>
  otherwise.
\<close>

definition float_lit :: "real \<Rightarrow> real" where
  "float_lit x = to_double x"

definition float_add :: "real \<Rightarrow> real \<Rightarrow> real" where
  "float_add x y = to_double (x + y)"

definition float_sub :: "real \<Rightarrow> real \<Rightarrow> real" where
  "float_sub x y = to_double (x - y)"

definition float_div :: "real \<Rightarrow> real \<Rightarrow> real" where
  "float_div x y = to_double (x / y)"

subsection \<open>ctypes values\<close>

type_synonym c_int_t = "32 word"

definition c_int :: "int \<Rightarrow> c_int_t" where
  "c_int v = word_of_int v"

definition c_double :: "real \<Rightarrow> real" where
  "c_double v = v"

text \<open>An argument that the script passes once as \<open>c_double\<close> and once as \<open>c_int\<close>.\<close>

datatype c_arg = C_double real | C_int c_int_t

text \<open>\<open>device_data.handle\<close>, the \<open>c_int\<close> that \<open>FDwfDeviceOpen\<close> fills in.\<close>

type_synonym hdwf = c_int_t

subsection \<open>The constants of dwfconstants that the script names\<close>

text \<open>class \<open>function\<close> (lines 130-142): the eleven waveform kinds.\<close>

datatype func =
    funcCustom | funcSine | funcSquare | funcTriangle | funcNoise | funcDC
  | funcPulse | funcTrapezium | funcSinePower | funcRampUp | funcRampDown

datatype analog_out_node = AnalogOutNodeCarrier

datatype in_filter = filterDecimate

subsection \<open>Calls to the driver, and the other effects of the script\<close>

text \<open>
  One constructor for each \<open>dwf\<close> function the script calls, with the arguments in the
  order of the call. Arguments passed by reference for the driver to fill in (the handle of
  \<open>FDwfDeviceOpen\<close>, the voltage, the record buffer) are left out: the model's
  functions return them. The status argument of \<open>FDwfAnalogInStatus\<close> is kept,
  since the script passes \<open>c_int(0)\<close> in one place and a reference in the other.
\<close>

datatype status_arg = Status_null | Status_byref

datatype dwf_call =
    FDwfDeviceOpen c_int_t
  | FDwfDeviceClose hdwf
  | FDwfAnalogInChannelEnableSet hdwf c_int_t bool
  | FDwfAnalogInChannelOffsetSet hdwf c_int_t real
  | FDwfAnalogInChannelRangeSet hdwf c_int_t real
  | FDwfAnalogInBufferSizeSet hdwf c_int_t
  | FDwfAnalogInFrequencySet hdwf real
  | FDwfAnalogInChannelFilterSet hdwf c_int_t in_filter
  | FDwfAnalogInConfigure hdwf bool bool
  | FDwfAnalogInStatus hdwf bool status_arg
  | FDwfAnalogInStatusSample hdwf c_int_t
  | FDwfAnalogInStatusData hdwf c_int_t nat c_int_t
  | FDwfAnalogInReset hdwf
  | FDwfAnalogOutNodeEnableSet hdwf c_int_t analog_out_node bool
  | FDwfAnalogOutNodeFunctionSet hdwf c_int_t analog_out_node func
  | FDwfAnalogOutNodeDataSet hdwf c_int_t analog_out_node "real list" c_int_t
  | FDwfAnalogOutNodeFrequencySet hdwf c_int_t analog_out_node real
  | FDwfAnalogOutNodeAmplitudeSet hdwf c_int_t analog_out_node real
  | FDwfAnalogOutNodeOffsetSet hdwf c_int_t analog_out_node real
  | FDwfAnalogOutNodeSymmetrySet hdwf c_int_t analog_out_node real
  | FDwfAnalogOutRunSet hdwf c_int_t real
  | FDwfAnalogOutWaitSet hdwf c_int_t real
  | FDwfAnalogOutRepeatSet hdwf c_int_t c_int_t
  | FDwfAnalogOutConfigure hdwf c_int_t bool
  | FDwfAnalogOutReset hdwf c_int_t
  | FDwfAnalogIOChannelNodeSet hdwf c_int_t c_int_t c_arg
  | FDwfAnalogIOEnableSet hdwf c_int_t

datatype event =
    Dwf dwf_call
  | Time_time
  | Time_sleep real
  | Print_starting
  | Print_cycle int real

text \<open>
  What the outside hands to the script. \<open>sample_src k c\<close> is the voltage that the
  \<open>k\<close>-th call of \<open>FDwfAnalogInStatusSample\<close> stores for channel index \<open>c\<close>,
  \<open>status_src k\<close> the status byte of the \<open>k\<close>-th polling call, \<open>buffer_src i\<close>
  the \<open>i\<close>-th value of the record buffer, \<open>clock_src k\<close> the result of the \<open>k\<close>-th
  call of \<open>time.time()\<close>. \<open>DwfStateDone\<close> is \<open>constants.DwfStateDone.value\<close>, a
  constant of the vendor's dwfconstants module.
\<close>

record environment =
  opened_handle :: hdwf
  sample_src :: "nat \<Rightarrow> c_int_t \<Rightarrow> real"
  status_src :: "nat \<Rightarrow> int"
  buffer_src :: "nat \<Rightarrow> real"
  clock_src :: "nat \<Rightarrow> real"
  DwfStateDone :: int

text \<open>
  The effects so far, oldest first, and how many samples, status bytes and clock readings
  have been taken.
\<close>

record world =
  events :: "event list"
  n_sample :: nat
  n_status :: nat
  n_clock :: nat

definition emit :: "event \<Rightarrow> 'a world_scheme \<Rightarrow> 'a world_scheme" where
  "emit e w = w\<lparr>events := events w @ [e]\<rparr>"

definition dwf :: "dwf_call \<Rightarrow> 'a world_scheme \<Rightarrow> 'a world_scheme" where
  "dwf c w = emit (Dwf c) w"

definition world0 :: world where
  "world0 = \<lparr>events = [], n_sample = 0, n_status = 0, n_clock = 0\<rparr>"

subsection \<open>Auxiliary power control: \<open>_switch_variable_\<close>, defined twice\<close>

text \<open>The definition at lines 207-233.\<close>

definition switch_variable_first ::
  "hdwf \<Rightarrow> bool \<Rightarrow> bool \<Rightarrow> bool \<Rightarrow> real \<Rightarrow> real \<Rightarrow> 'a world_scheme \<Rightarrow> 'a world_scheme"
where
  "switch_variable_first handle master_state positive_state negative_state
       positive_voltage negative_voltage w =
    (let positive_voltage = max 0 (min 5 positive_voltage);
         w = dwf (FDwfAnalogIOChannelNodeSet handle (c_int 0) (c_int 1)
                    (C_double (c_double positive_voltage))) w;
         negative_voltage = max (- 5) (min 0 negative_voltage);
         w = dwf (FDwfAnalogIOChannelNodeSet handle (c_int 1) (c_int 1)
                    (C_double (c_double negative_voltage))) w;
         w = dwf (FDwfAnalogIOChannelNodeSet handle (c_int 0) (c_int 0)
                    (C_int (c_int (of_bool positive_state)))) w;
         w = dwf (FDwfAnalogIOChannelNodeSet handle (c_int 1) (c_int 0)
                    (C_int (c_int (of_bool negative_state)))) w;
         w = dwf (FDwfAnalogIOEnableSet handle (c_int (of_bool master_state))) w
     in w)"

text \<open>The definition at lines 235-261, which rebinds the name.\<close>

definition switch_variable_second ::
  "hdwf \<Rightarrow> bool \<Rightarrow> bool \<Rightarrow> bool \<Rightarrow> real \<Rightarrow> real \<Rightarrow> 'a world_scheme \<Rightarrow> 'a world_scheme"
where
  "switch_variable_second handle master_state positive_state negative_state
       positive_voltage negative_voltage w =
    (let positive_voltage = max 0 (min 5 positive_voltage);
         w = dwf (FDwfAnalogIOChannelNodeSet handle (c_int 0) (c_int 1)
                    (C_double (c_double positive_voltage))) w;
         negative_voltage = max (- 5) (min 0 negative_voltage);
         w = dwf (FDwfAnalogIOChannelNodeSet handle (c_int 1) (c_int 1)
                    (C_double (c_double negative_voltage))) w;
         w = dwf (FDwfAnalogIOChannelNodeSet handle (c_int 0) (c_int 0)
                    (C_int (c_int (of_bool positive_state)))) w;
         w = dwf (FDwfAnalogIOChannelNodeSet handle (c_int 1) (c_int 0)
                    (C_int (c_int (of_bool negative_state)))) w;
         w = dwf (FDwfAnalogIOEnableSet handle (c_int (of_bool master_state))) w
     in w)"

text \<open>After the module has run, \<open>_switch_variable_\<close> is the second definition.\<close>

definition switch_variable ::
  "hdwf \<Rightarrow> bool \<Rightarrow> bool \<Rightarrow> bool \<Rightarrow> real \<Rightarrow> real \<Rightarrow> 'a world_scheme \<Rightarrow> 'a world_scheme"
where
  "switch_variable = switch_variable_second"

text \<open>The spec's words for the clamp: a value is brought into the interval \<open>[lo, hi]\<close>.\<close>

definition clamped_to :: "real \<Rightarrow> real \<Rightarrow> real \<Rightarrow> real" where
  "clamped_to lo hi v = (if v < lo then lo else if hi < v then hi else v)"

subsection \<open>Module-level names\<close>

text \<open>
  A Python object is modelled by its attributes, and the module's globals by the names
  bound when the module body has run. A function that reads a global name which is not
  bound raises \<open>NameError\<close>; reading an attribute that is not set raises
  \<open>AttributeError\<close>.
\<close>

datatype py_error =
    NameError string
  | AttributeError string
  | TypeError
  | ValueError
  | ZeroDivisionError

datatype py_value = Int_val int | Float_val real | Handle_val hdwf

type_synonym py_object = "string \<rightharpoonup> py_value"

type_synonym py_globals = "string \<rightharpoonup> py_object"

text \<open>
  The names the module body binds, in the order of the file: the imports of lines 1-3, the
  names of lines 5-18 (on macOS \<open>lib_path\<close> as well), the imports of lines 23-24, and
  every \<open>def\<close> and \<open>class\<close> up to \<open>main\<close>. The attributes of these objects are
  not tracked.
\<close>

definition module_names :: "string list" where
  "module_names =
    [''ctypes'', ''platform'', ''path'', ''sep'', ''dwf'', ''constants_path'',
     ''constants'', ''device'', ''open_AD2'', ''open_oscilloscope'',
     ''measure_oscilloscope'', ''record_oscilloscope'', ''close_oscilloscope'',
     ''function'', ''generate_function'', ''close_function'', ''_switch_variable_'',
     ''close'', ''main'']"

definition module_globals :: py_globals where
  "module_globals = map_of (map (\<lambda>name. (name, Map.empty)) module_names)"

definition as_number :: "py_value \<Rightarrow> real option" where
  "as_number v = (case v of Int_val i \<Rightarrow> Some (of_int i) | Float_val x \<Rightarrow> Some x
                  | Handle_val h \<Rightarrow> None)"

subsection \<open>The name \<open>time\<close>\<close>

text \<open>
  The script calls \<open>time.sleep\<close> and \<open>time.time\<close>, but the module has no
  \<open>import time\<close>: \<open>time\<close> is not among \<open>module_names\<close>. Each call looks the name
  up in the globals first and raises \<open>NameError\<close> when it is not bound. A bound
  \<open>time\<close> is taken to be the standard module: \<open>time.time()\<close> returns the next
  clock reading of the environment, \<open>time.sleep\<close> waits (its arguments in the script are
  positive constants).
\<close>

type_synonym 's run = "py_error option \<times> 's"

definition has_time :: "py_globals \<Rightarrow> bool" where
  "has_time g \<longleftrightarrow> g ''time'' \<noteq> None"

definition time_time ::
  "py_globals \<Rightarrow> environment \<Rightarrow> 'a world_scheme \<Rightarrow> (py_error + real) \<times> 'a world_scheme"
where
  "time_time g env w =
     (case g ''time'' of
        None \<Rightarrow> (Inl (NameError ''time''), w)
      | Some time \<Rightarrow>
          (Inr (clock_src env (n_clock w)), (emit Time_time w)\<lparr>n_clock := Suc (n_clock w)\<rparr>))"

definition time_sleep :: "py_globals \<Rightarrow> real \<Rightarrow> 'a world_scheme \<Rightarrow> 'a world_scheme run" where
  "time_sleep g secs w =
     (case g ''time'' of
        None \<Rightarrow> (Some (NameError ''time''), w)
      | Some time \<Rightarrow> (None, emit (Time_sleep secs) w))"

text \<open>Sequencing: what follows a statement runs only when the statement raised nothing.\<close>

definition then_do :: "'s run \<Rightarrow> ('s \<Rightarrow> 's run) \<Rightarrow> 's run" where
  "then_do r f = (case fst r of None \<Rightarrow> f (snd r) | Some e \<Rightarrow> r)"

subsection \<open>Device session\<close>

text \<open>
  \<open>open_AD2\<close> (lines 26-36). The name \<open>data\<close> is not assigned in the function, so it
  is read from the globals \<open>g\<close>. The result is the object \<open>data\<close> with its
  \<open>handle\<close> attribute set.
\<close>

definition open_AD2 ::
  "py_globals \<Rightarrow> environment \<Rightarrow> 'a world_scheme \<Rightarrow> (py_error + py_object) \<times> 'a world_scheme"
where
  "open_AD2 g env w =
    (let device_handle = opened_handle env;
         w = dwf (FDwfDeviceOpen (c_int (- 1))) w
     in case g ''data'' of
          None \<Rightarrow> (Inl (NameError ''data''), w)
        | Some data \<Rightarrow> (Inr (data(''handle'' \<mapsto> Handle_val device_handle)), w))"

text \<open>\<open>close\<close> (lines 263-268).\<close>

definition close_device :: "hdwf \<Rightarrow> 'a world_scheme \<Rightarrow> 'a world_scheme" where
  "close_device handle w = dwf (FDwfDeviceClose handle) w"

subsection \<open>Oscilloscope control\<close>

text \<open>\<open>open_oscilloscope\<close> (lines 38-66); the defaults are those of the signature.\<close>

definition open_oscilloscope ::
  "hdwf \<Rightarrow> real \<Rightarrow> int \<Rightarrow> real \<Rightarrow> real \<Rightarrow> 'a world_scheme \<Rightarrow> 'a world_scheme"
where
  "open_oscilloscope handle sampling_frequency buffer_size offset amplitude_range w =
    (let w = dwf (FDwfAnalogInChannelEnableSet handle (c_int 0) True) w;
         w = dwf (FDwfAnalogInChannelOffsetSet handle (c_int 0) (c_double offset)) w;
         w = dwf (FDwfAnalogInChannelRangeSet handle (c_int 0) (c_double amplitude_range)) w;
         w = dwf (FDwfAnalogInBufferSizeSet handle (c_int buffer_size)) w;
         w = dwf (FDwfAnalogInFrequencySet handle (c_double sampling_frequency)) w;
         w = dwf (FDwfAnalogInChannelFilterSet handle (c_int (- 1)) filterDecimate) w
     in w)"

definition open_oscilloscope_defaults :: "hdwf \<Rightarrow> 'a world_scheme \<Rightarrow> 'a world_scheme" where
  "open_oscilloscope_defaults handle w = open_oscilloscope handle 20000000 8921 0 50 w"

text \<open>\<open>measure_oscilloscope\<close> (lines 68-88).\<close>

definition measure_oscilloscope ::
  "environment \<Rightarrow> hdwf \<Rightarrow> int \<Rightarrow> 'a world_scheme \<Rightarrow> real \<times> 'a world_scheme"
where
  "measure_oscilloscope env handle channel w =
    (let w = dwf (FDwfAnalogInConfigure handle False False) w;
         w = dwf (FDwfAnalogInStatus handle False Status_null) w;
         voltage = sample_src env (n_sample w) (c_int (channel - 1));
         w = (dwf (FDwfAnalogInStatusSample handle (c_int (channel - 1))) w)
               \<lparr>n_sample := Suc (n_sample w)\<rparr>
     in (voltage, w))"

text \<open>
  The \<open>while True\<close> loop of \<open>record_oscilloscope\<close> (lines 102-109). It has no bound, so
  it is a partial function: \<open>None\<close> when the driver never reports the done status.
\<close>

partial_function (option) poll_status ::
  "environment \<Rightarrow> hdwf \<Rightarrow> 'a world_scheme \<Rightarrow> 'a world_scheme option"
where
  "poll_status env handle w =
    (let status = status_src env (n_status w);
         w = (dwf (FDwfAnalogInStatus handle True Status_byref) w)
               \<lparr>n_status := Suc (n_status w)\<rparr>
     in if status = DwfStateDone env then Some w else poll_status env handle w)"

text \<open>
  The rest of \<open>record_oscilloscope\<close> after the loop (lines 111-121). \<open>data\<close> is again
  the global name. \<open>data.sampling_frequency\<close> is read once for each element of the
  comprehension, so not at all when the buffer is empty.
\<close>

definition copy_buffer ::
  "py_globals \<Rightarrow> environment \<Rightarrow> hdwf \<Rightarrow> int \<Rightarrow> 'a world_scheme
     \<Rightarrow> (py_error + real list \<times> real list) \<times> 'a world_scheme"
where
  "copy_buffer g env handle channel w =
    (case g ''data'' of
       None \<Rightarrow> (Inl (NameError ''data''), w)
     | Some data \<Rightarrow>
        (case data ''buffer_size'' of
           None \<Rightarrow> (Inl (AttributeError ''buffer_size''), w)
         | Some (Float_val x) \<Rightarrow> (Inl TypeError, w)
         | Some (Handle_val h) \<Rightarrow> (Inl TypeError, w)
         | Some (Int_val buffer_size) \<Rightarrow>
            if buffer_size < 0 then (Inl ValueError, w)
            else
              (let w = dwf (FDwfAnalogInStatusData handle (c_int (channel - 1))
                             (nat buffer_size) (c_int buffer_size)) w;
                   buffer = map (buffer_src env) [0..<nat buffer_size];
                   time = [0..<nat buffer_size]
               in if time = [] then (Inr (buffer, []), w)
                  else
                    (case data ''sampling_frequency'' of
                       None \<Rightarrow> (Inl (AttributeError ''sampling_frequency''), w)
                     | Some v \<Rightarrow>
                        (case as_number v of
                           None \<Rightarrow> (Inl TypeError, w)
                         | Some sampling_frequency \<Rightarrow>
                            if sampling_frequency = 0 then (Inl ZeroDivisionError, w)
                            else (Inr (buffer,
                                       map (\<lambda>moment. float_div (real moment) sampling_frequency)
                                         time),
                                  w))))))"

text \<open>\<open>record_oscilloscope\<close> (lines 90-121).\<close>

definition record_oscilloscope ::
  "py_globals \<Rightarrow> environment \<Rightarrow> hdwf \<Rightarrow> int \<Rightarrow> 'a world_scheme
     \<Rightarrow> ((py_error + real list \<times> real list) \<times> 'a world_scheme) option"
where
  "record_oscilloscope g env handle channel w =
    (case poll_status env handle (dwf (FDwfAnalogInConfigure handle False True) w) of
       None \<Rightarrow> None
     | Some w \<Rightarrow> Some (copy_buffer g env handle channel w))"

text \<open>\<open>close_oscilloscope\<close> (lines 123-128).\<close>

definition close_oscilloscope :: "hdwf \<Rightarrow> 'a world_scheme \<Rightarrow> 'a world_scheme" where
  "close_oscilloscope handle w = dwf (FDwfAnalogInReset handle) w"

subsection \<open>Waveform generator control\<close>

text \<open>
  The upload loop of \<open>generate_function\<close> (lines 169-171): a zeroed array of
  \<open>data_length\<close> doubles, then \<open>buffer[index] = c_double(data[index])\<close> for every
  index of the buffer.
\<close>

definition fill_buffer :: "real list \<Rightarrow> real list" where
  "fill_buffer data =
    (let data_length = length data;
         buffer = replicate data_length 0
     in fold (\<lambda>index buffer. buffer[index := c_double (data ! index)])
          [0..<length buffer] buffer)"

text \<open>
  \<open>generate_function\<close> (lines 144-197). The arguments are in the order of the signature;
  \<open>generate_function_dc\<close> below is the call that \<open>main\<close> makes, with the defaults of
  the signature for the arguments it leaves out.
\<close>

definition generate_function ::
  "hdwf \<Rightarrow> int \<Rightarrow> func \<Rightarrow> real \<Rightarrow> real \<Rightarrow> real \<Rightarrow> real \<Rightarrow> real \<Rightarrow> real \<Rightarrow> int \<Rightarrow> real list
     \<Rightarrow> 'a world_scheme \<Rightarrow> 'a world_scheme"
where
  "generate_function handle channel function offset frequency amplitude symmetry wait
       run_time repeat data w =
    (let channel = c_int (channel - 1);
         w = dwf (FDwfAnalogOutNodeEnableSet handle channel AnalogOutNodeCarrier True) w;
         w = dwf (FDwfAnalogOutNodeFunctionSet handle channel AnalogOutNodeCarrier function) w;
         w = (if function = funcCustom then
                (let data_length = int (length data);
                     buffer = fill_buffer data
                 in dwf (FDwfAnalogOutNodeDataSet handle channel AnalogOutNodeCarrier buffer
                           (c_int data_length)) w)
              else w);
         w = dwf (FDwfAnalogOutNodeFrequencySet handle channel AnalogOutNodeCarrier
                    (c_double frequency)) w;
         w = dwf (FDwfAnalogOutNodeAmplitudeSet handle channel AnalogOutNodeCarrier
                    (c_double amplitude)) w;
         w = dwf (FDwfAnalogOutNodeOffsetSet handle channel AnalogOutNodeCarrier
                    (c_double offset)) w;
         w = dwf (FDwfAnalogOutNodeSymmetrySet handle channel AnalogOutNodeCarrier
                    (c_double symmetry)) w;
         w = dwf (FDwfAnalogOutRunSet handle channel (c_double run_time)) w;
         w = dwf (FDwfAnalogOutWaitSet handle channel (c_double wait)) w;
         w = dwf (FDwfAnalogOutRepeatSet handle channel (c_int repeat)) w;
         w = dwf (FDwfAnalogOutConfigure handle channel True) w
     in w)"

definition generate_function_dc :: "hdwf \<Rightarrow> real \<Rightarrow> 'a world_scheme \<Rightarrow> 'a world_scheme" where
  "generate_function_dc handle offset w =
     generate_function handle 1 funcDC offset 0 0 50 0 0 0 [] w"

text \<open>\<open>close_function\<close> (lines 199-205).\<close>

definition close_function :: "hdwf \<Rightarrow> int \<Rightarrow> 'a world_scheme \<Rightarrow> 'a world_scheme" where
  "close_function handle channel w = dwf (FDwfAnalogOutReset handle (c_int (channel - 1))) w"

subsection \<open>The sweep: \<open>main\<close>\<close>

text \<open>
  \<open>main\<close> (lines 270-359) fixes its constants in its first lines. The four that the
  spec's sweep configuration names are parameters of the model; \<open>demo_config\<close> holds the
  values of the source, with the float literal \<open>0.05\<close> as the double it denotes. The
  step \<open>amplitude_slope\<close> is a float; an int start voltage or amplitude, as the source
  has them, acts as the float of the same value. The settle delay
  \<open>time_per_measurement\<close> keeps the source's value. The handle comes from
  \<open>device.open()\<close>, a module that is not part of the script, and is a parameter. The
  plotting that follows the loops is outside the model.
\<close>

record sweep_config =
  cfg_power_up :: real
  cfg_amplitude :: real
  cfg_amplitude_slope :: real
  cfg_cycles :: int

definition demo_config :: sweep_config where
  "demo_config =
     \<lparr>cfg_power_up = - 5, cfg_amplitude = 5, cfg_amplitude_slope = float_lit (5 / 100),
      cfg_cycles = 1\<rparr>"

definition time_per_measurement :: real where
  "time_per_measurement = float_lit (1 / 1000000)"

text \<open>Python's \<open>int\<close> of a float: truncation towards zero.\<close>

definition py_int :: "real \<Rightarrow> int" where
  "py_int x = (if 0 \<le> x then \<lfloor>x\<rfloor> else \<lceil>x\<rceil>)"

text \<open>Line 278: \<open>rmap_steps = int(amplitude/amplitude_slope)\<close>, a division of floats.\<close>

definition rmap_steps :: "sweep_config \<Rightarrow> py_error + int" where
  "rmap_steps cfg =
     (if cfg_amplitude_slope cfg = 0 then Inl ZeroDivisionError
      else Inr (py_int (float_div (cfg_amplitude cfg) (cfg_amplitude_slope cfg))))"

text \<open>The local variables of \<open>main\<close> that the loops change, on top of the world.\<close>

record sweep_state = world +
  ramp_measurements :: "real list"
  opamp_measurements :: "real list"
  Times :: "real list"
  power_up :: real

text \<open>
  \<open>for i in range(0, stop, 1)\<close> runs its body \<open>nat stop\<close> times, with \<open>i\<close> counting
  from 0; a \<open>stop\<close> that is not positive gives no iteration. An exception in the body
  ends the loop.
\<close>

primrec for_range_from :: "int \<Rightarrow> nat \<Rightarrow> (int \<Rightarrow> 's \<Rightarrow> 's run) \<Rightarrow> 's \<Rightarrow> 's run" where
  "for_range_from i 0 body s = (None, s)"
| "for_range_from i (Suc n) body s = then_do (body i s) (for_range_from (i + 1) n body)"

definition for_range :: "int \<Rightarrow> (int \<Rightarrow> 's \<Rightarrow> 's run) \<Rightarrow> 's \<Rightarrow> 's run" where
  "for_range stop body s = for_range_from 0 (nat stop) body s"

text \<open>The body of the first inner loop (lines 306-329).\<close>

definition rising_step ::
  "py_globals \<Rightarrow> sweep_config \<Rightarrow> environment \<Rightarrow> hdwf \<Rightarrow> real \<Rightarrow> sweep_state
     \<Rightarrow> sweep_state run"
where
  "rising_step g cfg env device_data start_time s =
    (let (measurement, s) = measure_oscilloscope env device_data 1 s;
         s = s\<lparr>ramp_measurements := ramp_measurements s @ [measurement]\<rparr>;
         (measurement, s) = measure_oscilloscope env device_data 2 s;
         s = s\<lparr>opamp_measurements := opamp_measurements s @ [measurement]\<rparr>;
         s = s\<lparr>power_up := float_add (power_up s) (cfg_amplitude_slope cfg)\<rparr>;
         s = generate_function_dc device_data (power_up s) s
     in case time_time g env s of
          (Inl e, s) \<Rightarrow> (Some e, s)
        | (Inr now, s) \<Rightarrow>
            (let s = s\<lparr>Times := Times s @ [float_sub now start_time]\<rparr>
             in time_sleep g time_per_measurement s))"

text \<open>The body of the second inner loop (lines 332-357).\<close>

definition falling_step ::
  "py_globals \<Rightarrow> sweep_config \<Rightarrow> environment \<Rightarrow> hdwf \<Rightarrow> real \<Rightarrow> sweep_state
     \<Rightarrow> sweep_state run"
where
  "falling_step g cfg env device_data start_time s =
    (let (measurement, s) = measure_oscilloscope env device_data 1 s;
         s = s\<lparr>ramp_measurements := ramp_measurements s @ [measurement]\<rparr>;
         (measurement, s) = measure_oscilloscope env device_data 2 s;
         s = s\<lparr>opamp_measurements := opamp_measurements s @ [measurement]\<rparr>;
         s = s\<lparr>power_up := float_sub (power_up s) (cfg_amplitude_slope cfg)\<rparr>;
         s = generate_function_dc device_data (power_up s) s
     in case time_time g env s of
          (Inl e, s) \<Rightarrow> (Some e, s)
        | (Inr now, s) \<Rightarrow>
            (let s = s\<lparr>Times := Times s @ [float_sub now start_time]\<rparr>
             in time_sleep g time_per_measurement s))"

text \<open>The two inner loops (lines 305 and 331): \<open>range(0, rmap_steps*2, 1)\<close> each.\<close>

definition rising_phase ::
  "py_globals \<Rightarrow> sweep_config \<Rightarrow> environment \<Rightarrow> hdwf \<Rightarrow> int \<Rightarrow> real \<Rightarrow> sweep_state
     \<Rightarrow> sweep_state run"
where
  "rising_phase g cfg env device_data steps start_time s =
     for_range (steps * 2) (\<lambda>i. rising_step g cfg env device_data start_time) s"

definition falling_phase ::
  "py_globals \<Rightarrow> sweep_config \<Rightarrow> environment \<Rightarrow> hdwf \<Rightarrow> int \<Rightarrow> real \<Rightarrow> sweep_state
     \<Rightarrow> sweep_state run"
where
  "falling_phase g cfg env device_data steps start_time s =
     for_range (steps * 2) (\<lambda>i. falling_step g cfg env device_data start_time) s"

text \<open>Line 359: the \<open>print\<close> at the end of a cycle reads the clock once more.\<close>

definition print_cycle ::
  "py_globals \<Rightarrow> environment \<Rightarrow> real \<Rightarrow> int \<Rightarrow> sweep_state \<Rightarrow> sweep_state run"
where
  "print_cycle g env start_time j s =
     (case time_time g env s of
        (Inl e, s) \<Rightarrow> (Some e, s)
      | (Inr now, s) \<Rightarrow> (None, emit (Print_cycle (j + 1) (float_sub now start_time)) s))"

text \<open>The body of the outer loop (lines 305-359).\<close>

definition cycle ::
  "py_globals \<Rightarrow> sweep_config \<Rightarrow> environment \<Rightarrow> hdwf \<Rightarrow> int \<Rightarrow> real \<Rightarrow> int \<Rightarrow> sweep_state
     \<Rightarrow> sweep_state run"
where
  "cycle g cfg env device_data steps start_time j s =
     then_do (rising_phase g cfg env device_data steps start_time s) (\<lambda>s.
     then_do (falling_phase g cfg env device_data steps start_time s) (\<lambda>s.
     print_cycle g env start_time j s))"

text \<open>Lines 301-359: the start of the timer and the outer loop.\<close>

definition sweep ::
  "py_globals \<Rightarrow> sweep_config \<Rightarrow> environment \<Rightarrow> hdwf \<Rightarrow> int \<Rightarrow> sweep_state \<Rightarrow> sweep_state run"
where
  "sweep g cfg env device_data steps s =
    (case time_time g env s of
       (Inl e, s) \<Rightarrow> (Some e, s)
     | (Inr start_time, s) \<Rightarrow>
         for_range (cfg_cycles cfg) (cycle g cfg env device_data steps start_time) s)"

text \<open>Lines 272-277 and 279-282: the locals of \<open>main\<close> before the device is opened.\<close>

definition initial_locals :: "sweep_config \<Rightarrow> world \<Rightarrow> sweep_state" where
  "initial_locals cfg w =
     \<lparr>events = events w, n_sample = n_sample w, n_status = n_status w, n_clock = n_clock w,
      ramp_measurements = [], opamp_measurements = [], Times = [],
      power_up = cfg_power_up cfg\<rparr>"

text \<open>Lines 285-298: the setup of the instrument; \<open>time.sleep\<close> is its first statement.\<close>

definition main_setup :: "py_globals \<Rightarrow> hdwf \<Rightarrow> sweep_state \<Rightarrow> sweep_state run" where
  "main_setup g device_data s =
     then_do (time_sleep g (1 / 2) s) (\<lambda>s.
     then_do (time_sleep g (1 / 2)
                (switch_variable device_data True True True 5 (- 5)
                   (open_oscilloscope_defaults device_data s))) (\<lambda>s.
     time_sleep g (1 / 2)
       (generate_function_dc device_data (power_up s) (emit Print_starting s))))"

text \<open>
  \<open>main\<close> up to the end of the outer loop, as a function of the globals and of the
  configuration: the exception raised, if any, and the state reached. The division of
  line 278 comes before any call to the device.
\<close>

definition main_with ::
  "py_globals \<Rightarrow> sweep_config \<Rightarrow> environment \<Rightarrow> hdwf \<Rightarrow> world \<Rightarrow> sweep_state run"
where
  "main_with g cfg env device_data w =
    (case rmap_steps cfg of
       Inl e \<Rightarrow> (Some e, initial_locals cfg w)
     | Inr steps \<Rightarrow>
         then_do (main_setup g device_data (initial_locals cfg w))
           (sweep g cfg env device_data steps))"

text \<open>Line 407: the list of triples that \<open>main\<close> prints, one for every element of \<open>Times\<close>.\<close>

definition sweep_samples :: "sweep_state \<Rightarrow> (real \<times> real \<times> real) list" where
  "sweep_samples s =
     map (\<lambda>i. (Times s ! i, ramp_measurements s ! i, opamp_measurements s ! i))
       [0..<length (Times s)]"

subsection \<open>Observations on a run\<close>

text \<open>
  An environment for concrete runs: the driver reports the done status (2 in the vendor's
  constants) at once, every voltage is 0, and the \<open>k\<close>-th clock reading is \<open>k\<close>.
\<close>

text \<open>The module's globals with the standard \<open>time\<close> module bound as well.\<close>

definition globals_with_time :: py_globals where
  "globals_with_time = module_globals(''time'' \<mapsto> Map.empty)"

definition demo_env :: environment where
  "demo_env =
     \<lparr>opened_handle = 1, sample_src = (\<lambda>k c. 0), status_src = (\<lambda>k. 2),
      buffer_src = (\<lambda>i. 0), clock_src = real, DwfStateDone = 2\<rparr>"

text \<open>
  What a call of \<open>FDwfAnalogOutNodeDataSet\<close> hands to the device: the buffer, and the
  declared length as the driver reads the \<open>c_int\<close>, a signed 32-bit number.
\<close>

definition upload_of :: "event \<Rightarrow> (real list \<times> int) option" where
  "upload_of e =
     (case e of
        Dwf (FDwfAnalogOutNodeDataSet h c n buffer len) \<Rightarrow> Some (buffer, sint len)
      | _ \<Rightarrow> None)"

definition uploads :: "event list \<Rightarrow> (real list \<times> int) list" where
  "uploads evs = List.map_filter upload_of evs"

text \<open>
  The driver calls of one \<open>measure_oscilloscope\<close> and of one
  \<open>generate_function\<close> as \<open>main\<close> calls it (channel 1, DC, the given offset).
\<close>

definition sample_events :: "hdwf \<Rightarrow> int \<Rightarrow> event list" where
  "sample_events handle channel =
     [Dwf (FDwfAnalogInConfigure handle False False),
      Dwf (FDwfAnalogInStatus handle False Status_null),
      Dwf (FDwfAnalogInStatusSample handle (c_int (channel - 1)))]"

definition set_output_events :: "hdwf \<Rightarrow> real \<Rightarrow> event list" where
  "set_output_events handle offset =
     [Dwf (FDwfAnalogOutNodeEnableSet handle (c_int 0) AnalogOutNodeCarrier True),
      Dwf (FDwfAnalogOutNodeFunctionSet handle (c_int 0) AnalogOutNodeCarrier funcDC),
      Dwf (FDwfAnalogOutNodeFrequencySet handle (c_int 0) AnalogOutNodeCarrier 0),
      Dwf (FDwfAnalogOutNodeAmplitudeSet handle (c_int 0) AnalogOutNodeCarrier 0),
      Dwf (FDwfAnalogOutNodeOffsetSet handle (c_int 0) AnalogOutNodeCarrier offset),
      Dwf (FDwfAnalogOutNodeSymmetrySet handle (c_int 0) AnalogOutNodeCarrier 50),
      Dwf (FDwfAnalogOutRunSet handle (c_int 0) 0),
      Dwf (FDwfAnalogOutWaitSet handle (c_int 0) 0),
      Dwf (FDwfAnalogOutRepeatSet handle (c_int 0) (c_int 0)),
      Dwf (FDwfAnalogOutConfigure handle (c_int 0) True)]"

text \<open>
  The order of one sweep step in the spec's words: sample channel A, sample channel B,
  record both with the current elapsed time (the clock is read here), change the output
  and reconfigure the generator, wait the settle delay.
\<close>

definition spec_order_step_events :: "hdwf \<Rightarrow> real \<Rightarrow> event list" where
  "spec_order_step_events handle offset =
     sample_events handle 1 @ sample_events handle 2 @ [Time_time]
       @ set_output_events handle offset @ [Time_sleep time_per_measurement]"



definition tiny_config :: sweep_config where
  "tiny_config = demo_config\<lparr>cfg_amplitude := 1 / 64\<rparr>"


section \<open>Properties\<close>

subsection \<open>Auxiliary lemmas: the device facade\<close>

lemma clamp_pos: "max 0 (min 5 v) = clamped_to 0 5 (v::real)"
  by (simp add: clamped_to_def min_def max_def)

lemma clamp_neg: "max (- 5) (min 0 v) = clamped_to (- 5) 0 (v::real)"
  by (simp add: clamped_to_def min_def max_def)

lemma events_switch_variable_second:
  "events (switch_variable_second handle master_state positive_state negative_state
             positive_voltage negative_voltage w) =
     events w @
       [Dwf (FDwfAnalogIOChannelNodeSet handle (c_int 0) (c_int 1)
               (C_double (clamped_to 0 5 positive_voltage))),
        Dwf (FDwfAnalogIOChannelNodeSet handle (c_int 1) (c_int 1)
               (C_double (clamped_to (- 5) 0 negative_voltage))),
        Dwf (FDwfAnalogIOChannelNodeSet handle (c_int 0) (c_int 0)
               (C_int (c_int (of_bool positive_state)))),
        Dwf (FDwfAnalogIOChannelNodeSet handle (c_int 1) (c_int 0)
               (C_int (c_int (of_bool negative_state)))),
        Dwf (FDwfAnalogIOEnableSet handle (c_int (of_bool master_state)))]"
  by (simp add: switch_variable_second_def Let_def dwf_def emit_def c_double_def
        clamp_pos clamp_neg)

lemma uploads_append: "uploads (xs @ ys) = uploads xs @ uploads ys"
  by (simp add: uploads_def map_filter_def)

lemma uploads_Cons:
  "uploads (e # es) = (case upload_of e of None \<Rightarrow> uploads es | Some u \<Rightarrow> u # uploads es)"
  by (simp add: uploads_def map_filter_def split: option.splits)

lemma uploads_Nil: "uploads [] = []"
  by (simp add: uploads_def map_filter_def)

text \<open>The upload loop, stopped after \<open>n\<close> indices: the first \<open>n\<close> places hold the data.\<close>

lemma fold_upload:
  "n \<le> length data \<Longrightarrow> length buffer = length data \<Longrightarrow>
   fold (\<lambda>index buffer. buffer[index := c_double (data ! index)]) [0..<n] buffer =
     take n data @ drop n buffer"
proof (induction n)
  case 0
  then show ?case by simp
next
  case (Suc n)
  then have "n < length buffer" by simp
  then have "(take n data @ drop n buffer)[n := data ! n] =
      take n data @ (data ! n) # drop (Suc n) buffer"
    using Suc.prems
    by (simp add: list_update_append upd_conv_take_nth_drop)
  with Suc show ?case
    by (simp add: c_double_def take_Suc_conv_app_nth)
qed

lemma fill_buffer_verbatim: "fill_buffer data = data"
  by (simp add: fill_buffer_def Let_def fold_upload)

lemma events_generate_custom:
  "events (generate_function handle channel funcCustom offset frequency amplitude symmetry
             wait run_time repeat data w) =
   events w @
     [Dwf (FDwfAnalogOutNodeEnableSet handle (c_int (channel - 1)) AnalogOutNodeCarrier True),
      Dwf (FDwfAnalogOutNodeFunctionSet handle (c_int (channel - 1)) AnalogOutNodeCarrier
             funcCustom),
      Dwf (FDwfAnalogOutNodeDataSet handle (c_int (channel - 1)) AnalogOutNodeCarrier data
             (c_int (int (length data)))),
      Dwf (FDwfAnalogOutNodeFrequencySet handle (c_int (channel - 1)) AnalogOutNodeCarrier
             frequency),
      Dwf (FDwfAnalogOutNodeAmplitudeSet handle (c_int (channel - 1)) AnalogOutNodeCarrier
             amplitude),
      Dwf (FDwfAnalogOutNodeOffsetSet handle (c_int (channel - 1)) AnalogOutNodeCarrier offset),
      Dwf (FDwfAnalogOutNodeSymmetrySet handle (c_int (channel - 1)) AnalogOutNodeCarrier
             symmetry),
      Dwf (FDwfAnalogOutRunSet handle (c_int (channel - 1)) run_time),
      Dwf (FDwfAnalogOutWaitSet handle (c_int (channel - 1)) wait),
      Dwf (FDwfAnalogOutRepeatSet handle (c_int (channel - 1)) (c_int repeat)),
      Dwf (FDwfAnalogOutConfigure handle (c_int (channel - 1)) True)]"
  by (simp add: generate_function_def Let_def dwf_def emit_def c_double_def
        fill_buffer_verbatim)

lemma uploads_generate_custom:
  "uploads (events (generate_function handle channel funcCustom offset frequency amplitude
                      symmetry wait run_time repeat data w)) =
   uploads (events w) @ [(data, sint (c_int (int (length data))))]"
  by (simp add: events_generate_custom uploads_append uploads_Cons uploads_Nil upload_of_def)

text \<open>How the driver reads a \<open>c_int\<close>: the value wraps into the signed 32-bit range.\<close>

lemma sint_c_int: "sint (c_int v) = (v + 2 ^ 31) mod 2 ^ 32 - 2 ^ 31"
  unfolding c_int_def int_word_sint by simp

lemma sint_c_int_small: "n < 2 ^ 31 \<Longrightarrow> sint (c_int (int n)) = int n"
  unfolding sint_c_int by simp

lemma poll_done_first:
  "status_src env (n_status w) = DwfStateDone env \<Longrightarrow>
   poll_status env handle w =
     Some ((dwf (FDwfAnalogInStatus handle True Status_byref) w)
             \<lparr>n_status := Suc (n_status w)\<rparr>)"
  by (subst poll_status.simps) (simp add: Let_def)

lemma module_data_unbound: "module_globals ''data'' = None"
  by (simp add: module_globals_def module_names_def)

subsection \<open>Auxiliary lemmas: rounding to a double\<close>

text \<open>
  The rounding is odd, monotone, exact on zero, and off by at most half an \<open>ulp\<close>,
  that is by at most \<open>2^-53\<close> of the number rounded. \<open>to_double_eval\<close> computes it
  for a number whose binary exponent is given.
\<close>

lemma round_even_cases: "round_even m = \<lfloor>m\<rfloor> \<or> round_even m = \<lfloor>m\<rfloor> + 1"
  by (simp add: round_even_def Let_def)


lemma round_even_of_int [simp]: "round_even (of_int k) = k"
  by (simp add: round_even_def)

lemma round_even_ge_floor: "\<lfloor>m\<rfloor> \<le> round_even m"
  using round_even_cases [of m] by auto

lemma round_even_le_ceiling: "round_even m \<le> \<lceil>m\<rceil>"
proof (cases "m = of_int \<lfloor>m\<rfloor>")
  case True
  then have "round_even m = \<lfloor>m\<rfloor>"
    by (metis round_even_of_int)
  then show ?thesis by (simp add: floor_le_ceiling)
next
  case False
  then have "\<lceil>m\<rceil> = \<lfloor>m\<rfloor> + 1"
    by (simp add: ceiling_altdef)
  then show ?thesis using round_even_cases [of m] by auto
qed

lemma round_even_mono: "m \<le> m' \<Longrightarrow> round_even m \<le> round_even m'"
proof -
  assume le: "m \<le> m'"
  then have fl: "\<lfloor>m\<rfloor> \<le> \<lfloor>m'\<rfloor>" by (rule floor_mono)
  show ?thesis
  proof (cases "\<lfloor>m\<rfloor> = \<lfloor>m'\<rfloor>")
    case True
    with le show ?thesis
      unfolding round_even_def Let_def by (auto; linarith)
  next
    case False
    with fl have "\<lfloor>m\<rfloor> + 1 \<le> \<lfloor>m'\<rfloor>" by simp
    then show ?thesis
      using round_even_cases [of m] round_even_ge_floor [of m'] by auto
  qed
qed

lemma round_even_minus: "round_even (- m) = - round_even m"
proof (cases "m = of_int \<lfloor>m\<rfloor>")
  case True
  then obtain k where "m = of_int k" ..
  then show ?thesis by (simp flip: of_int_minus)
next
  case False
  then have fl: "\<lfloor>- m\<rfloor> = - \<lfloor>m\<rfloor> - 1"
    by (simp add: floor_minus ceiling_altdef)
  show ?thesis
    unfolding round_even_def Let_def fl by (auto; linarith)
qed

lemma expo_bounds:
  assumes "x \<noteq> 0"
  shows "2 powr of_int (expo x) \<le> \<bar>x\<bar>" and "\<bar>x\<bar> < 2 powr (of_int (expo x) + 1)"
proof -
  have "0 < \<bar>x\<bar>" using assms by simp
  then have "2 powr of_int (expo x) \<le> \<bar>x\<bar> \<and> \<bar>x\<bar> < 2 powr (of_int (expo x) + 1)"
    using floor_log_eq_powr_iff [of "\<bar>x\<bar>" 2 "expo x"] by (simp add: expo_def)
  then show "2 powr of_int (expo x) \<le> \<bar>x\<bar>" and "\<bar>x\<bar> < 2 powr (of_int (expo x) + 1)"
    by simp_all
qed

lemma expo_eqI:
  assumes "2 powr of_int e \<le> \<bar>x\<bar>" and "\<bar>x\<bar> < 2 powr (of_int e + 1)"
  shows "expo x = e"
proof -
  have "0 < (2::real) powr of_int e" by simp
  with assms(1) have "0 < \<bar>x\<bar>" by linarith
  then show ?thesis
    using floor_log_eq_powr_iff [of "\<bar>x\<bar>" 2 e] assms by (simp add: expo_def)
qed

lemma ulp_pos: "0 < ulp x"
  by (simp add: ulp_def)

lemma ulp_minus [simp]: "ulp (- x) = ulp x"
  by (simp add: ulp_def expo_def)

lemma binade_lower: "2 powr of_int (expo x) = 2 ^ 52 * ulp x"
  by (simp add: ulp_def powr_diff)

lemma binade_upper: "2 powr (of_int (expo x) + 1) = 2 ^ 53 * ulp x"
  by (simp add: ulp_def powr_diff powr_add)

lemma scaled_bounds:
  assumes "x \<noteq> 0"
  shows "2 ^ 52 \<le> \<bar>x\<bar> / ulp x" and "\<bar>x\<bar> / ulp x < 2 ^ 53"
proof -
  show "2 ^ 52 \<le> \<bar>x\<bar> / ulp x"
    using expo_bounds(1) [OF assms] ulp_pos [of x] by (simp add: binade_lower pos_le_divide_eq)
  show "\<bar>x\<bar> / ulp x < 2 ^ 53"
    using expo_bounds(2) [OF assms] ulp_pos [of x] by (simp add: binade_upper pos_divide_less_eq)
qed

lemma to_double_zero [simp]: "to_double 0 = 0"
  by (simp add: to_double_def)

lemma to_double_minus: "to_double (- x) = - to_double x"
  by (simp add: to_double_def round_even_minus)




lemma to_double_pos_bounds:
  assumes "0 < x"
  shows "2 powr of_int (expo x) \<le> to_double x" and "to_double x \<le> 2 powr (of_int (expo x) + 1)"
proof -
  have nz: "x \<noteq> 0" using assms by simp
  let ?m = "x / ulp x"
  have m: "2 ^ 52 \<le> ?m" "?m < 2 ^ 53"
    using scaled_bounds [OF nz] assms by simp_all
  have "of_int (2 ^ 52) \<le> ?m" using m(1) by simp
  then have "(2 ^ 52 :: int) \<le> \<lfloor>?m\<rfloor>" by (simp only: le_floor_iff)
  then have lo: "(2 ^ 52 :: int) \<le> round_even ?m"
    using round_even_ge_floor [of ?m] by linarith
  have "?m \<le> of_int (2 ^ 53)" using m(2) by simp
  then have "\<lceil>?m\<rceil> \<le> (2 ^ 53 :: int)" by (simp only: ceiling_le_iff)
  then have hi: "round_even ?m \<le> (2 ^ 53 :: int)"
    using round_even_le_ceiling [of ?m] by linarith
  have "(2 ^ 52 :: real) \<le> of_int (round_even ?m)"
    using lo by (metis of_int_le_iff of_int_numeral of_int_power)
  then show "2 powr of_int (expo x) \<le> to_double x"
    using nz ulp_pos [of x] by (simp add: binade_lower to_double_def)
  have "of_int (round_even ?m) \<le> (2 ^ 53 :: real)"
    using hi by (metis of_int_le_iff of_int_numeral of_int_power)
  then show "to_double x \<le> 2 powr (of_int (expo x) + 1)"
    using nz ulp_pos [of x] by (simp add: binade_upper to_double_def)
qed

lemma to_double_pos: "0 < x \<Longrightarrow> 0 < to_double x"
  using to_double_pos_bounds(1) [of x] powr_gt_zero [of 2 "of_int (expo x)"] by linarith

lemma expo_mono: "0 < x \<Longrightarrow> x \<le> y \<Longrightarrow> expo x \<le> expo y"
  unfolding expo_def by (intro floor_mono) (simp add: log_le_cancel_iff)

lemma to_double_mono_pos:
  assumes "0 < x" and "x \<le> y"
  shows "to_double x \<le> to_double y"
proof (cases "expo x = expo y")
  case True
  then have u: "ulp x = ulp y" by (simp add: ulp_def)
  have "x / ulp y \<le> y / ulp y"
    using assms(2) ulp_pos [of y] by (simp add: divide_right_mono)
  then have "round_even (x / ulp y) \<le> round_even (y / ulp y)"
    by (rule round_even_mono)
  then have "(of_int (round_even (x / ulp y)) :: real) \<le> of_int (round_even (y / ulp y))"
    by simp
  then show ?thesis
    using assms ulp_pos [of y] by (simp add: to_double_def u mult_right_mono)
next
  case False
  with expo_mono [OF assms] have "expo x + 1 \<le> expo y" by simp
  then have "(of_int (expo x) + 1 :: real) \<le> of_int (expo y)"
    by (metis of_int_1 of_int_add of_int_le_iff)
  then have "(2::real) powr (of_int (expo x) + 1) \<le> 2 powr of_int (expo y)"
    by (simp add: powr_mono)
  moreover have "0 < y" using assms by simp
  ultimately show ?thesis
    using to_double_pos_bounds(2) [OF assms(1)] to_double_pos_bounds(1) [of y] by linarith
qed

lemma to_double_mono: "x \<le> y \<Longrightarrow> to_double x \<le> to_double y"
proof -
  assume le: "x \<le> y"
  consider "0 < x" | "x \<le> 0" "0 \<le> y" | "y < 0" by linarith
  then show ?thesis
  proof cases
    case 1
    with le show ?thesis by (simp add: to_double_mono_pos)
  next
    case 2
    have "to_double x \<le> 0"
    proof (cases "x = 0")
      case False
      with 2 have "0 < - x" by simp
      from to_double_pos [OF this] show ?thesis by (simp add: to_double_minus)
    qed simp
    moreover have "0 \<le> to_double y"
    proof (cases "y = 0")
      case False
      with 2 have "0 < y" by simp
      from to_double_pos [OF this] show ?thesis by simp
    qed simp
    ultimately show ?thesis by simp
  next
    case 3
    with le have "0 < - y" "- y \<le> - x" by simp_all
    from to_double_mono_pos [OF this] show ?thesis by (simp add: to_double_minus)
  qed
qed

lemma to_double_eq_0_iff [simp]: "to_double x = 0 \<longleftrightarrow> x = 0"
proof
  assume z: "to_double x = 0"
  show "x = 0"
  proof (rule ccontr)
    assume "x \<noteq> 0"
    then consider "0 < x" | "0 < - x" by linarith
    then show False
    proof cases
      case 1
      from to_double_pos [OF this] z show False by simp
    next
      case 2
      from to_double_pos [OF this] z show False by (simp add: to_double_minus)
    qed
  qed
qed simp

lemma to_double_eval:
  assumes "2 ^ 52 \<le> \<bar>x\<bar> * 2 ^ n" and "\<bar>x\<bar> * 2 ^ n < 2 ^ 53"
  shows "to_double x = of_int (round_even (x * 2 ^ n)) / 2 ^ n"
proof -
  have p: "2 powr (52 - real n) = 2 ^ 52 / 2 ^ n"
    by (simp add: powr_diff powr_realpow)
  have q: "2 powr (53 - real n) = 2 ^ 53 / 2 ^ n"
    by (simp add: powr_diff powr_realpow)
  have "expo x = 52 - int n"
  proof (rule expo_eqI)
    show "2 powr of_int (52 - int n) \<le> \<bar>x\<bar>"
      using assms(1) by (simp add: p field_simps)
    show "\<bar>x\<bar> < 2 powr (of_int (52 - int n) + 1)"
      using assms(2) by (simp add: q field_simps)
  qed
  then have "ulp x = 1 / 2 ^ n"
    by (simp add: ulp_def powr_minus powr_realpow inverse_eq_divide)
  moreover have "x \<noteq> 0" using assms(1) by auto
  ultimately show ?thesis by (simp add: to_double_def)
qed

lemma float_lit_slope: "float_lit (1 / 20) = 3602879701896397 / 2 ^ 56"
  unfolding float_lit_def
  by (subst to_double_eval [where n = 57]) (simp_all add: round_even_def)

lemma float_div_demo: "float_div 5 (float_lit (1 / 20)) = 100"
  unfolding float_div_def
  by (subst to_double_eval [where n = 46]) (simp_all add: float_lit_slope round_even_def)

lemma to_double_near_one: "to_double (1 - 1 / 2 ^ 53) = 1 - 1 / 2 ^ 53"
  by (subst to_double_eval [where n = 53]) (simp_all add: round_even_def)






subsection \<open>Auxiliary lemmas: the sweep\<close>

text \<open>
  One step of either inner loop, field by field, with \<open>time\<close> unbound and bound; then
  the loops, a cycle and the sweep when \<open>time\<close> is bound.
\<close>

lemma then_do_simps [simp]:
  "then_do (None, s) f = f s"
  "then_do (Some e, s) f = (Some e, s)"
  by (simp_all add: then_do_def)

lemma then_do_ok: "fst r = None \<Longrightarrow> then_do r f = f (snd r)"
  by (simp add: then_do_def)

lemma then_do_raised: "fst r = Some e \<Longrightarrow> then_do r f = r"
  by (simp add: then_do_def)

lemma time_bound:
  assumes "has_time g"
  shows "time_time g env w =
           (Inr (clock_src env (n_clock w)), (emit Time_time w)\<lparr>n_clock := Suc (n_clock w)\<rparr>)"
    and "time_sleep g secs w = (None, emit (Time_sleep secs) w)"
  using assms by (auto simp: has_time_def time_time_def time_sleep_def)

lemma time_unbound:
  assumes "\<not> has_time g"
  shows "time_time g env w = (Inl (NameError ''time''), w)"
    and "time_sleep g secs w = (Some (NameError ''time''), w)"
  using assms by (auto simp: has_time_def time_time_def time_sleep_def)

lemmas step_defs =
  measure_oscilloscope_def generate_function_dc_def generate_function_def
  dwf_def emit_def Let_def split_def c_double_def

text \<open>One step, up to the point where the clock is read.\<close>

lemma rising_step_unbound:
  assumes "\<not> has_time g"
  shows "fst (rising_step g cfg env h t s) = Some (NameError ''time'')"
    and "events (snd (rising_step g cfg env h t s)) =
           events s @ sample_events h 1 @ sample_events h 2
             @ set_output_events h (float_add (power_up s) (cfg_amplitude_slope cfg))"
    and "ramp_measurements (snd (rising_step g cfg env h t s)) =
           ramp_measurements s @ [sample_src env (n_sample s) (c_int 0)]"
    and "opamp_measurements (snd (rising_step g cfg env h t s)) =
           opamp_measurements s @ [sample_src env (Suc (n_sample s)) (c_int 1)]"
    and "Times (snd (rising_step g cfg env h t s)) = Times s"
    and "power_up (snd (rising_step g cfg env h t s)) =
           float_add (power_up s) (cfg_amplitude_slope cfg)"
  by (simp_all add: rising_step_def time_unbound [OF assms] step_defs sample_events_def
        set_output_events_def)

lemma rising_step_bound:
  assumes "has_time g"
  shows "fst (rising_step g cfg env h t s) = None"
    and "events (snd (rising_step g cfg env h t s)) =
           events s @ sample_events h 1 @ sample_events h 2
             @ set_output_events h (float_add (power_up s) (cfg_amplitude_slope cfg))
             @ [Time_time, Time_sleep time_per_measurement]"
    and "ramp_measurements (snd (rising_step g cfg env h t s)) =
           ramp_measurements s @ [sample_src env (n_sample s) (c_int 0)]"
    and "opamp_measurements (snd (rising_step g cfg env h t s)) =
           opamp_measurements s @ [sample_src env (Suc (n_sample s)) (c_int 1)]"
    and "Times (snd (rising_step g cfg env h t s)) =
           Times s @ [float_sub (clock_src env (n_clock s)) t]"
    and "power_up (snd (rising_step g cfg env h t s)) =
           float_add (power_up s) (cfg_amplitude_slope cfg)"
    and "n_clock (snd (rising_step g cfg env h t s)) = Suc (n_clock s)"
    and "n_sample (snd (rising_step g cfg env h t s)) = n_sample s + 2"
  by (simp_all add: rising_step_def time_bound [OF assms] step_defs sample_events_def
        set_output_events_def)

lemma falling_step_unbound:
  assumes "\<not> has_time g"
  shows "fst (falling_step g cfg env h t s) = Some (NameError ''time'')"
    and "events (snd (falling_step g cfg env h t s)) =
           events s @ sample_events h 1 @ sample_events h 2
             @ set_output_events h (float_sub (power_up s) (cfg_amplitude_slope cfg))"
    and "ramp_measurements (snd (falling_step g cfg env h t s)) =
           ramp_measurements s @ [sample_src env (n_sample s) (c_int 0)]"
    and "opamp_measurements (snd (falling_step g cfg env h t s)) =
           opamp_measurements s @ [sample_src env (Suc (n_sample s)) (c_int 1)]"
    and "Times (snd (falling_step g cfg env h t s)) = Times s"
    and "power_up (snd (falling_step g cfg env h t s)) =
           float_sub (power_up s) (cfg_amplitude_slope cfg)"
  by (simp_all add: falling_step_def time_unbound [OF assms] step_defs sample_events_def
        set_output_events_def)

lemma falling_step_bound:
  assumes "has_time g"
  shows "fst (falling_step g cfg env h t s) = None"
    and "events (snd (falling_step g cfg env h t s)) =
           events s @ sample_events h 1 @ sample_events h 2
             @ set_output_events h (float_sub (power_up s) (cfg_amplitude_slope cfg))
             @ [Time_time, Time_sleep time_per_measurement]"
    and "ramp_measurements (snd (falling_step g cfg env h t s)) =
           ramp_measurements s @ [sample_src env (n_sample s) (c_int 0)]"
    and "opamp_measurements (snd (falling_step g cfg env h t s)) =
           opamp_measurements s @ [sample_src env (Suc (n_sample s)) (c_int 1)]"
    and "Times (snd (falling_step g cfg env h t s)) =
           Times s @ [float_sub (clock_src env (n_clock s)) t]"
    and "power_up (snd (falling_step g cfg env h t s)) =
           float_sub (power_up s) (cfg_amplitude_slope cfg)"
    and "n_clock (snd (falling_step g cfg env h t s)) = Suc (n_clock s)"
    and "n_sample (snd (falling_step g cfg env h t s)) = n_sample s + 2"
  by (simp_all add: falling_step_def time_bound [OF assms] step_defs sample_events_def
        set_output_events_def)

text \<open>Loops whose body raises nothing.\<close>

lemma for_range_from_ok:
  assumes "\<And>i s. fst (body i s) = None"
  shows "fst (for_range_from i n body s) = None"
  by (induction n arbitrary: i s) (simp_all add: then_do_ok assms)



lemma for_range_from_same:
  assumes "\<And>i s. fst (body i s) = None" and "\<And>i s. f (snd (body i s)) = f s"
  shows "f (snd (for_range_from i n body s)) = f s"
  by (induction n arbitrary: i s) (simp_all add: then_do_ok assms)

lemma phases_ok:
  assumes "has_time g"
  shows "fst (rising_phase g cfg env h steps t s) = None"
    and "fst (falling_phase g cfg env h steps t s) = None"
  unfolding rising_phase_def falling_phase_def for_range_def
  by (rule for_range_from_ok, simp add: rising_step_bound [OF assms],
      rule for_range_from_ok, simp add: falling_step_bound [OF assms])



lemma print_cycle_bound:
  assumes "has_time g"
  shows "fst (print_cycle g env t j s) = None"
    and "Times (snd (print_cycle g env t j s)) = Times s"
    and "ramp_measurements (snd (print_cycle g env t j s)) = ramp_measurements s"
    and "opamp_measurements (snd (print_cycle g env t j s)) = opamp_measurements s"
    and "power_up (snd (print_cycle g env t j s)) = power_up s"
    and "n_clock (snd (print_cycle g env t j s)) = Suc (n_clock s)"
    and "n_sample (snd (print_cycle g env t j s)) = n_sample s"
  by (simp_all add: print_cycle_def time_bound [OF assms] emit_def)

lemma cycle_unfold:
  assumes "has_time g"
  shows "cycle g cfg env h steps t j s =
     print_cycle g env t j
       (snd (falling_phase g cfg env h steps t (snd (rising_phase g cfg env h steps t s))))"
  by (simp add: cycle_def then_do_ok phases_ok [OF assms])

lemma cycle_ok:
  assumes "has_time g"
  shows "fst (cycle g cfg env h steps t j s) = None"
  by (simp add: cycle_unfold [OF assms] print_cycle_bound [OF assms])


lemma sweep_unfold:
  assumes "has_time g"
  shows "sweep g cfg env h steps s =
     for_range_from 0 (nat (cfg_cycles cfg)) (cycle g cfg env h steps (clock_src env (n_clock s)))
       ((emit Time_time s)\<lparr>n_clock := Suc (n_clock s)\<rparr>)"
  by (simp add: sweep_def time_bound [OF assms] for_range_def)

lemma sweep_ok:
  assumes "has_time g"
  shows "fst (sweep g cfg env h steps s) = None"
  unfolding sweep_unfold [OF assms] by (rule for_range_from_ok) (rule cycle_ok [OF assms])


lemma main_setup_bound:
  assumes "has_time g"
  shows "fst (main_setup g h s) = None"
    and "Times (snd (main_setup g h s)) = Times s"
    and "ramp_measurements (snd (main_setup g h s)) = ramp_measurements s"
    and "opamp_measurements (snd (main_setup g h s)) = opamp_measurements s"
    and "power_up (snd (main_setup g h s)) = power_up s"
    and "n_clock (snd (main_setup g h s)) = n_clock s"
    and "n_sample (snd (main_setup g h s)) = n_sample s"
  by (simp_all add: main_setup_def time_bound [OF assms] open_oscilloscope_defaults_def
        open_oscilloscope_def switch_variable_def switch_variable_second_def step_defs)

lemma main_setup_unbound:
  assumes "\<not> has_time g"
  shows "main_setup g h s = (Some (NameError ''time''), s)"
  by (simp add: main_setup_def time_unbound [OF assms])

lemma initial_locals_fields [simp]:
  "Times (initial_locals cfg w) = []"
  "ramp_measurements (initial_locals cfg w) = []"
  "opamp_measurements (initial_locals cfg w) = []"
  "power_up (initial_locals cfg w) = cfg_power_up cfg"
  "n_clock (initial_locals cfg w) = n_clock w"
  "n_sample (initial_locals cfg w) = n_sample w"
  "events (initial_locals cfg w) = events w"
  by (simp_all add: initial_locals_def)

lemma main_with_bound:
  assumes "has_time g" and "rmap_steps cfg = Inr steps"
  shows "main_with g cfg env h w =
           sweep g cfg env h steps (snd (main_setup g h (initial_locals cfg w)))"
  by (simp add: main_with_def assms(2) then_do_ok main_setup_bound [OF assms(1)])

lemma main_with_unbound:
  assumes "\<not> has_time g" and "rmap_steps cfg = Inr steps"
  shows "main_with g cfg env h w = (Some (NameError ''time''), initial_locals cfg w)"
  by (simp add: main_with_def assms(2) main_setup_unbound [OF assms(1)])


lemma rmap_steps_demo: "rmap_steps demo_config = Inr 100"
proof -
  have "float_lit (1 / 20) \<noteq> 0"
    by (simp add: float_lit_slope)
  then show ?thesis
    by (simp add: rmap_steps_def demo_config_def float_div_demo py_int_def)
qed

lemma module_time_unbound: "\<not> has_time module_globals"
  by (simp add: has_time_def module_globals_def module_names_def)

lemma globals_with_time_bound: "has_time globals_with_time"
  by (simp add: has_time_def globals_with_time_def)


lemma zero_quotient:
  assumes "0 \<le> a" and "a < s" and "a / s \<le> 1 - 1 / 2 ^ 53"
  shows "py_int (float_div a s) = 0"
proof -
  have "0 \<le> a / s" using assms(1,2) by simp
  then have lo: "0 \<le> to_double (a / s)"
    using to_double_mono [of 0 "a / s"] by simp
  have hi: "to_double (a / s) \<le> 1 - 1 / 2 ^ 53"
    using to_double_mono [OF assms(3)] by (simp only: to_double_near_one)
  have "\<lfloor>to_double (a / s)\<rfloor> = 0"
    using lo hi by (simp add: floor_eq_iff)
  with lo show ?thesis by (simp add: py_int_def float_div_def)
qed

lemma phases_no_steps:
  "rising_phase g cfg env h 0 t s = (None, s)"
  "falling_phase g cfg env h 0 t s = (None, s)"
  by (simp_all add: rising_phase_def falling_phase_def for_range_def)

lemma cycle_no_steps:
  assumes "has_time g"
  shows "Times (snd (cycle g cfg env h 0 t j s)) = Times s"
    and "ramp_measurements (snd (cycle g cfg env h 0 t j s)) = ramp_measurements s"
    and "opamp_measurements (snd (cycle g cfg env h 0 t j s)) = opamp_measurements s"
    and "n_sample (snd (cycle g cfg env h 0 t j s)) = n_sample s"
  by (simp_all add: cycle_def phases_no_steps print_cycle_bound [OF assms])

lemma sweep_no_steps:
  assumes "has_time g"
  shows "Times (snd (sweep g cfg env h 0 s)) = Times s"
    and "ramp_measurements (snd (sweep g cfg env h 0 s)) = ramp_measurements s"
    and "opamp_measurements (snd (sweep g cfg env h 0 s)) = opamp_measurements s"
    and "n_sample (snd (sweep g cfg env h 0 s)) = n_sample s"
  unfolding sweep_unfold [OF assms]
  by (subst for_range_from_same;
      simp add: cycle_no_steps [OF assms] cycle_ok [OF assms] emit_def)+



















lemma rmap_steps_tiny: "rmap_steps tiny_config = Inr 0"
proof -
  have "py_int (float_div (1 / 64) (float_lit (1 / 20))) = 0"
    by (rule zero_quotient) (simp_all add: float_lit_slope)
  moreover have "float_lit (1 / 20) \<noteq> 0"
    by (simp add: float_lit_slope)
  ultimately show ?thesis
    by (simp add: rmap_steps_def tiny_config_def demo_config_def)
qed

subsection \<open>The claims\<close>

text \<open>
  C1. The claim fails on the script as it is. With the names the module binds, \<open>main\<close>
  computes the step count (100 for the constants of the source, by the float division of
  line 278) and then ends with \<open>NameError\<close> for \<open>time\<close> at line 286, its first
  \<open>time.sleep\<close>: the device has not been called and no sample is recorded, where the
  claim has 400. (With \<open>time\<close> bound the count is the claim's:
  \<open>sample_count_with_time\<close>.)
\<close>

theorem main_raises_name_error:
  "rmap_steps demo_config = Inr 100
   \<and> main_with module_globals demo_config env h w =
       (Some (NameError ''time''), initial_locals demo_config w)
   \<and> sweep_samples (snd (main_with module_globals demo_config env h w)) = []
   \<and> events (snd (main_with module_globals demo_config env h w)) = events w"
  by (simp add: rmap_steps_demo main_with_unbound [OF module_time_unbound rmap_steps_demo]
        sweep_samples_def)




text \<open>
  C3, as amended. One step of the rising phase samples channel 1 and appends the voltage
  to \<open>ramp_measurements\<close>, samples channel 2 and appends the voltage to
  \<open>opamp_measurements\<close>, raises \<open>power_up\<close> by one step and reconfigures the generator
  with it, and only then reads the clock: with \<open>time\<close> bound it appends the elapsed
  time to \<open>Times\<close> and sleeps the settle delay, with \<open>time\<close> unbound it ends in
  \<open>NameError\<close> there. A step of the falling phase is the same with \<open>power_up\<close>
  lowered by one step.
\<close>

theorem step_order:
  "fst (rising_step g cfg env h t s) = (if has_time g then None else Some (NameError ''time''))
   \<and> events (snd (rising_step g cfg env h t s)) =
       events s @ sample_events h 1 @ sample_events h 2
         @ set_output_events h (float_add (power_up s) (cfg_amplitude_slope cfg))
         @ (if has_time g then [Time_time, Time_sleep time_per_measurement] else [])
   \<and> ramp_measurements (snd (rising_step g cfg env h t s)) =
       ramp_measurements s @ [sample_src env (n_sample s) (c_int 0)]
   \<and> opamp_measurements (snd (rising_step g cfg env h t s)) =
       opamp_measurements s @ [sample_src env (Suc (n_sample s)) (c_int 1)]
   \<and> power_up (snd (rising_step g cfg env h t s)) =
       float_add (power_up s) (cfg_amplitude_slope cfg)
   \<and> Times (snd (rising_step g cfg env h t s)) =
       Times s @ (if has_time g then [float_sub (clock_src env (n_clock s)) t] else [])
   \<and> fst (falling_step g cfg env h t s) = (if has_time g then None else Some (NameError ''time''))
   \<and> events (snd (falling_step g cfg env h t s)) =
       events s @ sample_events h 1 @ sample_events h 2
         @ set_output_events h (float_sub (power_up s) (cfg_amplitude_slope cfg))
         @ (if has_time g then [Time_time, Time_sleep time_per_measurement] else [])
   \<and> ramp_measurements (snd (falling_step g cfg env h t s)) =
       ramp_measurements s @ [sample_src env (n_sample s) (c_int 0)]
   \<and> opamp_measurements (snd (falling_step g cfg env h t s)) =
       opamp_measurements s @ [sample_src env (Suc (n_sample s)) (c_int 1)]
   \<and> power_up (snd (falling_step g cfg env h t s)) =
       float_sub (power_up s) (cfg_amplitude_slope cfg)
   \<and> Times (snd (falling_step g cfg env h t s)) =
       Times s @ (if has_time g then [float_sub (clock_src env (n_clock s)) t] else [])"
proof (cases "has_time g")
  case True
  then show ?thesis
    by (simp add: rising_step_bound falling_step_bound)
next
  case False
  then show ?thesis
    by (simp add: rising_step_unbound falling_step_unbound)
qed

text \<open>
  C3 as stated fails: in the first rising step of the source's sweep, with \<open>time\<close>
  bound, the events are not in the spec's order; and with the module's globals the
  generator has been reconfigured when the reading of the time fails.
\<close>

theorem step_order_counterexample:
  "events (snd (rising_step globals_with_time demo_config demo_env 1 0
                  (initial_locals demo_config world0))) \<noteq>
     events (initial_locals demo_config world0)
       @ spec_order_step_events 1
           (float_add (power_up (initial_locals demo_config world0))
              (cfg_amplitude_slope demo_config))
   \<and> rising_step module_globals demo_config demo_env 1 0 (initial_locals demo_config world0) =
       (Some (NameError ''time''),
        snd (rising_step module_globals demo_config demo_env 1 0
               (initial_locals demo_config world0)))
   \<and> events (snd (rising_step module_globals demo_config demo_env 1 0
                    (initial_locals demo_config world0))) =
       sample_events 1 1 @ sample_events 1 2
         @ set_output_events 1 (float_add (- 5) (cfg_amplitude_slope demo_config))"
proof -
  have "fst (rising_step module_globals demo_config demo_env 1 0
               (initial_locals demo_config world0)) = Some (NameError ''time'')"
    by (rule rising_step_unbound [OF module_time_unbound])
  then have "rising_step module_globals demo_config demo_env 1 0
               (initial_locals demo_config world0) =
       (Some (NameError ''time''),
        snd (rising_step module_globals demo_config demo_env 1 0
               (initial_locals demo_config world0)))"
    by (metis prod.collapse)
  then show ?thesis
    by (simp add: rising_step_bound [OF globals_with_time_bound]
          rising_step_unbound [OF module_time_unbound] spec_order_step_events_def
          sample_events_def set_output_events_def world0_def)
      (simp add: demo_config_def)
qed

text \<open>
  C4. The power-supply operation hands the driver the positive voltage clamped to
  \<open>[0, 5]\<close> and the negative voltage clamped to \<open>[-5, 0]\<close>, whatever the inputs; the
  two rail enables follow, and the master switch comes last. For the inputs 10 and -10 the
  values applied are 5 and -5.
\<close>

theorem supply_voltages_clamped:
  "events (switch_variable handle master_state positive_state negative_state
             positive_voltage negative_voltage w) =
     events w @
       [Dwf (FDwfAnalogIOChannelNodeSet handle (c_int 0) (c_int 1)
               (C_double (clamped_to 0 5 positive_voltage))),
        Dwf (FDwfAnalogIOChannelNodeSet handle (c_int 1) (c_int 1)
               (C_double (clamped_to (- 5) 0 negative_voltage))),
        Dwf (FDwfAnalogIOChannelNodeSet handle (c_int 0) (c_int 0)
               (C_int (c_int (of_bool positive_state)))),
        Dwf (FDwfAnalogIOChannelNodeSet handle (c_int 1) (c_int 0)
               (C_int (c_int (of_bool negative_state)))),
        Dwf (FDwfAnalogIOEnableSet handle (c_int (of_bool master_state)))]
   \<and> events (switch_variable handle master_state positive_state negative_state 10 (- 10) w) =
     events w @
       [Dwf (FDwfAnalogIOChannelNodeSet handle (c_int 0) (c_int 1) (C_double 5)),
        Dwf (FDwfAnalogIOChannelNodeSet handle (c_int 1) (c_int 1) (C_double (- 5))),
        Dwf (FDwfAnalogIOChannelNodeSet handle (c_int 0) (c_int 0)
               (C_int (c_int (of_bool positive_state)))),
        Dwf (FDwfAnalogIOChannelNodeSet handle (c_int 1) (c_int 0)
               (C_int (c_int (of_bool negative_state)))),
        Dwf (FDwfAnalogIOEnableSet handle (c_int (of_bool master_state)))]"
proof -
  have "clamped_to 0 5 10 = 5" and "clamped_to (- 5) 0 (- 10) = - 5"
    by (simp_all add: clamped_to_def)
  then show ?thesis
    by (simp add: switch_variable_def events_switch_variable_second)
qed




text \<open>
  C6. When the step count of line 278 is 0, either phase leaves the state as it is (no
  iteration), and \<open>main\<close> raises no \<open>ZeroDivisionError\<close>: it reaches the end of the
  sweep when \<open>time\<close> is bound and ends with \<open>NameError\<close> for \<open>time\<close> at line 286
  when it is not, in both cases with no sample taken and nothing recorded. The step
  count is 0 when \<open>0 \<le> amplitude < amplitude_slope\<close> and the quotient is at most
  \<open>1 - 2^-53\<close>, as the quotient of two such doubles is. The loops are structural
  recursions on the length of the range, so the model of the sweep is a total function.
\<close>

theorem zero_steps_no_samples:
  "(rmap_steps cfg = Inr 0 \<longrightarrow>
      rising_phase g cfg env h 0 t s = (None, s) \<and> falling_phase g cfg env h 0 t s = (None, s)
      \<and> fst (main_with g cfg env h w) = (if has_time g then None else Some (NameError ''time''))
      \<and> sweep_samples (snd (main_with g cfg env h w)) = []
      \<and> Times (snd (main_with g cfg env h w)) = []
      \<and> ramp_measurements (snd (main_with g cfg env h w)) = []
      \<and> opamp_measurements (snd (main_with g cfg env h w)) = []
      \<and> n_sample (snd (main_with g cfg env h w)) = n_sample w)
   \<and> (0 \<le> cfg_amplitude cfg \<and> cfg_amplitude cfg < cfg_amplitude_slope cfg
        \<and> cfg_amplitude cfg / cfg_amplitude_slope cfg \<le> 1 - 1 / 2 ^ 53 \<longrightarrow>
        rmap_steps cfg = Inr 0)"
proof (intro conjI impI)
  assume "0 \<le> cfg_amplitude cfg \<and> cfg_amplitude cfg < cfg_amplitude_slope cfg
        \<and> cfg_amplitude cfg / cfg_amplitude_slope cfg \<le> 1 - 1 / 2 ^ 53"
  then show "rmap_steps cfg = Inr 0"
    by (auto simp: rmap_steps_def zero_quotient)
next
  assume steps: "rmap_steps cfg = Inr 0"
  show "rising_phase g cfg env h 0 t s = (None, s)"
    and "falling_phase g cfg env h 0 t s = (None, s)"
    by (simp_all add: phases_no_steps)
  show "fst (main_with g cfg env h w) = (if has_time g then None else Some (NameError ''time''))"
    by (cases "has_time g")
      (simp_all add: main_with_bound [OF _ steps] main_with_unbound [OF _ steps] sweep_ok)
  show "Times (snd (main_with g cfg env h w)) = []"
    by (cases "has_time g")
      (simp_all add: main_with_bound [OF _ steps] main_with_unbound [OF _ steps]
        sweep_no_steps main_setup_bound)
  then show "sweep_samples (snd (main_with g cfg env h w)) = []"
    by (simp add: sweep_samples_def)
  show "ramp_measurements (snd (main_with g cfg env h w)) = []"
    by (cases "has_time g")
      (simp_all add: main_with_bound [OF _ steps] main_with_unbound [OF _ steps]
        sweep_no_steps main_setup_bound)
  show "opamp_measurements (snd (main_with g cfg env h w)) = []"
    by (cases "has_time g")
      (simp_all add: main_with_bound [OF _ steps] main_with_unbound [OF _ steps]
        sweep_no_steps main_setup_bound)
  show "n_sample (snd (main_with g cfg env h w)) = n_sample w"
    by (cases "has_time g")
      (simp_all add: main_with_bound [OF _ steps] main_with_unbound [OF _ steps]
        sweep_no_steps main_setup_bound)
qed

theorem zero_steps_no_samples_witness:
  "rmap_steps tiny_config = Inr 0
   \<and> 0 \<le> cfg_amplitude tiny_config \<and> cfg_amplitude tiny_config < cfg_amplitude_slope tiny_config
   \<and> cfg_amplitude tiny_config / cfg_amplitude_slope tiny_config \<le> 1 - 1 / 2 ^ 53
   \<and> fst (main_with module_globals tiny_config demo_env 1 world0) = Some (NameError ''time'')
   \<and> sweep_samples (snd (main_with module_globals tiny_config demo_env 1 world0)) = []
   \<and> fst (main_with globals_with_time tiny_config demo_env 1 world0) = None
   \<and> sweep_samples (snd (main_with globals_with_time tiny_config demo_env 1 world0)) = []
   \<and> n_sample (snd (main_with globals_with_time tiny_config demo_env 1 world0)) = 0"
proof -
  have small: "0 \<le> cfg_amplitude tiny_config \<and> cfg_amplitude tiny_config < cfg_amplitude_slope tiny_config
      \<and> cfg_amplitude tiny_config / cfg_amplitude_slope tiny_config \<le> 1 - 1 / 2 ^ 53"
    by (simp add: tiny_config_def demo_config_def float_lit_slope)
  note shipped = zero_steps_no_samples
    [where cfg = tiny_config and g = module_globals and env = demo_env and h = 1 and w = world0]
  note bound = zero_steps_no_samples
    [where cfg = tiny_config and g = globals_with_time and env = demo_env and h = 1 and w = world0]
  from shipped small have steps: "rmap_steps tiny_config = Inr 0"
    by blast
  from shipped steps have
    "fst (main_with module_globals tiny_config demo_env 1 world0) = Some (NameError ''time'')"
    "sweep_samples (snd (main_with module_globals tiny_config demo_env 1 world0)) = []"
    using module_time_unbound by simp_all
  moreover from bound steps have
    "fst (main_with globals_with_time tiny_config demo_env 1 world0) = None"
    "sweep_samples (snd (main_with globals_with_time tiny_config demo_env 1 world0)) = []"
    "n_sample (snd (main_with globals_with_time tiny_config demo_env 1 world0)) = 0"
    using globals_with_time_bound by (simp_all add: world0_def)
  ultimately show ?thesis
    using steps small by simp
qed

text \<open>
  C7, as amended. With the custom function kind and a list of \<open>N < 2^31\<close> samples, the
  one data-set call hands the device the caller's list itself (so a buffer of length
  \<open>N\<close>, element for element in the same order) and the declared length \<open>N\<close>.
\<close>

theorem custom_upload_verbatim:
  "length data < 2 ^ 31 \<Longrightarrow>
   uploads (events (generate_function handle channel funcCustom offset frequency amplitude
                      symmetry wait run_time repeat data w)) =
   uploads (events w) @ [(data, int (length data))]"
  by (simp add: uploads_generate_custom sint_c_int_small)

theorem custom_upload_verbatim_witness:
  "length [1, 2, 3 :: real] < 2 ^ 31
   \<and> uploads (events (generate_function 1 1 funcCustom 0 1000 1 50 0 0 0 [1, 2, 3] world0)) =
     [([1, 2, 3], 3)]"
  using custom_upload_verbatim [of "[1, 2, 3]" 1 1 0 1000 1 50 0 0 0 world0]
  by (simp add: world0_def uploads_Nil)

text \<open>
  C7 as stated fails for a list of \<open>2^31\<close> samples: the buffer is the caller's list, but
  the declared length, a \<open>c_int\<close>, reaches the device as \<open>-2^31\<close>.
\<close>

theorem custom_upload_declared_length_counterexample:
  "uploads (events (generate_function 1 1 funcCustom 0 1000 1 50 0 0 0
                      (replicate (2 ^ 31) 0) world0)) =
     [(replicate (2 ^ 31) 0, - 2147483648)]"
  by (simp add: uploads_generate_custom world0_def uploads_Nil sint_c_int)

text \<open>
  C8. \<open>record_oscilloscope\<close> is documented to return the buffer and the time vector. With
  the module's globals it does not: on a device that reports the done status at the first
  poll, the call ends with \<open>NameError\<close> for \<open>data\<close> right after the polling loop.
\<close>

theorem record_oscilloscope_name_error:
  "record_oscilloscope module_globals demo_env 1 1 world0 =
     Some (Inl (NameError ''data''),
           \<lparr>events = [Dwf (FDwfAnalogInConfigure 1 False True),
                      Dwf (FDwfAnalogInStatus 1 True Status_byref)],
            n_sample = 0, n_status = 1, n_clock = 0\<rparr>)"
  by (simp add: record_oscilloscope_def poll_done_first copy_buffer_def module_data_unbound
        demo_env_def world0_def dwf_def emit_def)

text \<open>
  C9. The two definitions of \<open>_switch_variable_\<close> do the same on every input: the same
  driver calls with the same values, and the same state afterwards.
\<close>

theorem switch_variable_definitions_agree:
  "switch_variable_first handle master_state positive_state negative_state
       positive_voltage negative_voltage w =
   switch_variable_second handle master_state positive_state negative_state
       positive_voltage negative_voltage w"
  by (simp add: switch_variable_first_def switch_variable_second_def)

text \<open>
  C10. With the names the module binds, \<open>open_AD2\<close> always ends with \<open>NameError\<close> for
  \<open>data\<close>, after the driver's open call and without returning a device object; and
  \<open>record_oscilloscope\<close> either polls for ever or ends with the same \<open>NameError\<close>: it
  never returns a buffer.
\<close>

theorem unbound_data_never_returns:
  "open_AD2 module_globals env w =
     (Inl (NameError ''data''), dwf (FDwfDeviceOpen (c_int (- 1))) w)
   \<and> (record_oscilloscope module_globals env handle channel w = None
      \<or> (\<exists>w'. record_oscilloscope module_globals env handle channel w =
                 Some (Inl (NameError ''data''), w')))"
  by (simp add: open_AD2_def record_oscilloscope_def copy_buffer_def module_data_unbound Let_def
        split: option.splits)

end
